theory Spec2Isabelle
  imports Main "HOL-Library.Finite_Map"
begin

section \<open>The Google provider of cashier: data model\<close>

text \<open>
  The development follows \<^verbatim>\<open>server/auth/google/google.go\<close>. Strings are Go
  strings, that is byte sequences, modelled as \<open>string\<close>. A Go \<^verbatim>\<open>error\<close> value that is
  not nil is its message; a function returning \<^verbatim>\<open>(T, error)\<close> returns \<open>error + T\<close>
  (\<open>Inl\<close> the error), a function returning only \<^verbatim>\<open>error\<close> returns \<open>error option\<close>
  (\<open>None\<close> is nil).
\<close>

type_synonym error = string

text \<open>
  A run-time panic (a nil dereference, an index out of range) is a result of its own,
  so that the absence of panics is a statement about the model.
\<close>

datatype 'a outcome = Panic | Return 'a

subsection \<open>Go maps\<close>

text \<open>
  A Go map is finite; reading a key that is absent gives the zero value of the element
  type, and \<^verbatim>\<open>len\<close> counts the keys.
\<close>

definition index_str :: "(string, string) fmap \<Rightarrow> string \<Rightarrow> string" where
  "index_str m k = (case fmlookup m k of None \<Rightarrow> [] | Some v \<Rightarrow> v)"

definition index_bool :: "(string, bool) fmap \<Rightarrow> string \<Rightarrow> bool" where
  "index_bool m k = (case fmlookup m k of None \<Rightarrow> False | Some v \<Rightarrow> v)"

definition len_map :: "(string, 'v) fmap \<Rightarrow> nat" where
  "len_map m = fcard (fmdom m)"

subsection \<open>Types of the oauth2 and Google API libraries\<close>

text \<open>
  \<^verbatim>\<open>oauth2.Token\<close>, \<^verbatim>\<open>oauth2.Endpoint\<close> and \<^verbatim>\<open>oauth2.Config\<close>, with the fields the
  provider sets or reads. The expiry is a time stamp; its comparison with the clock
  is \<open>expired\<close> of the backend below.
\<close>

record Token =
  AccessToken :: string
  TokenType :: string
  RefreshToken :: string
  Expiry :: int

record Endpoint =
  AuthURL :: string
  TokenURL :: string

record oauth2_Config =
  ClientID :: string
  ClientSecret :: string
  Endpoint :: Endpoint
  RedirectURL :: string
  Scopes :: "string list"

text \<open>The constants \<^verbatim>\<open>google.Endpoint\<close> and the two scopes of \<^verbatim>\<open>oauth2/v2\<close>.\<close>

definition google_Endpoint :: Endpoint where
  "google_Endpoint =
     \<lparr>AuthURL = ''https://accounts.google.com/o/oauth2/auth'',
      TokenURL = ''https://oauth2.googleapis.com/token''\<rparr>"

definition UserinfoEmailScope :: string where
  "UserinfoEmailScope = ''https://www.googleapis.com/auth/userinfo.email''"

definition UserinfoProfileScope :: string where
  "UserinfoProfileScope = ''https://www.googleapis.com/auth/userinfo.profile''"

text \<open>
  The answers of the Google API: \<^verbatim>\<open>Tokeninfo\<close> with its audience, \<^verbatim>\<open>Userinfo\<close> with
  the address and the hosted domain. The fields of \<^verbatim>\<open>Userinfo\<close> are \<^verbatim>\<open>Email\<close> and
  \<^verbatim>\<open>Hd\<close> in Go; the first is written \<open>ui_Email\<close> here, \<open>Email\<close> being the method of
  the provider.
\<close>

record Tokeninfo =
  Audience :: string

record Userinfo =
  ui_Email :: string
  Hd :: string

text \<open>
  The HTTP client that \<^verbatim>\<open>c.config.Client(ctx, token)\<close> builds is determined by the
  OAuth configuration and the token (a pointer, which may be nil); the API service
  holds its client. A request has a method and a URL, a response a status code.
\<close>

record Client =
  client_config :: oauth2_Config
  client_token :: "Token option"

record Service =
  svc_client :: Client

record Request =
  Method :: string
  URL :: string

record Response =
  StatusCode :: nat

subsection \<open>Types of the repository\<close>

text \<open>
  Modelled from the spec: the struct \<^verbatim>\<open>config.Auth\<close> of package
  \<^verbatim>\<open>server/config\<close>, which is not among the sources. The spec's ProviderConfig has a
  client identifier, a client secret, a redirect URL, a provider-specific option
  mapping and an explicit allow-list; the field names are those \<^verbatim>\<open>New\<close> reads.
\<close>

record Auth =
  OauthClientID :: string
  OauthClientSecret :: string
  OauthCallbackURL :: string
  ProviderOpts :: "(string, string) fmap"
  UsersWhitelist :: "string list"

text \<open>
  Modelled from the spec: the counters \<^verbatim>\<open>metrics.M.AuthValid\<close> and
  \<^verbatim>\<open>metrics.M.AuthExchange\<close> of package \<^verbatim>\<open>server/metrics\<close>, which is not among the
  sources. The spec has a per-provider validation counter and a per-provider exchange
  counter: each is a count for every label value.
\<close>

record Metrics =
  AuthValid :: "string \<Rightarrow> nat"
  AuthExchange :: "string \<Rightarrow> nat"

definition Inc_AuthValid :: "string \<Rightarrow> Metrics \<Rightarrow> Metrics" where
  "Inc_AuthValid l m = m\<lparr>AuthValid := (AuthValid m)(l := Suc (AuthValid m l))\<rparr>"

definition Inc_AuthExchange :: "string \<Rightarrow> Metrics \<Rightarrow> Metrics" where
  "Inc_AuthExchange l m = m\<lparr>AuthExchange := (AuthExchange m)(l := Suc (AuthExchange m l))\<rparr>"

text \<open>The provider itself: \<^verbatim>\<open>type Config struct\<close>.\<close>

record Config =
  config :: oauth2_Config
  domain :: string
  whitelist :: "(string, bool) fmap"

subsection \<open>The world outside the provider\<close>

text \<open>
  Everything the provider calls and does not define answers through a \<open>backend\<close>: the
  clock behind the expiry of a token, the construction of the API service, the
  \<^verbatim>\<open>Tokeninfo\<close> and \<^verbatim>\<open>Userinfo\<close> calls, the code-for-token exchange, the construction
  of an HTTP request and the round trip of the HTTP client. The state \<open>'w\<close> of the world
  (network, identity backend, clock, and the request context with its cancellation) is
  threaded through every call, so two calls of the same operation may answer
  differently. Nothing is assumed of the operations.
\<close>

record 'w backend =
  expired :: "'w \<Rightarrow> Token \<Rightarrow> bool"
  NewService :: "Client \<Rightarrow> 'w \<Rightarrow> (error + Service) \<times> 'w"
  Tokeninfo_Do :: "Service \<Rightarrow> string \<Rightarrow> 'w \<Rightarrow> (error + Tokeninfo) \<times> 'w"
  Userinfo_Get_Do :: "Service \<Rightarrow> 'w \<Rightarrow> (error + Userinfo) \<times> 'w"
  oauth2_Exchange :: "oauth2_Config \<Rightarrow> string \<Rightarrow> 'w \<Rightarrow> (error + Token) \<times> 'w"
  NewRequestWithContext :: "string \<Rightarrow> string \<Rightarrow> error + Request"
  Client_Do :: "Client \<Rightarrow> Request \<Rightarrow> 'w \<Rightarrow> (error + Response) \<times> 'w"

text \<open>
  \<^verbatim>\<open>(*oauth2.Token).Valid\<close> of the library: the pointer is not nil, the access token
  is not empty, and the token has not expired.
\<close>

definition Token_Valid :: "'w backend \<Rightarrow> 'w \<Rightarrow> Token option \<Rightarrow> bool" where
  "Token_Valid b w token =
     (case token of
        None \<Rightarrow> False
      | Some t \<Rightarrow> AccessToken t \<noteq> [] \<and> \<not> expired b w t)"

section \<open>The provider\<close>

definition revokeURL :: "string \<Rightarrow> string" where
  "revokeURL tok = ''https://accounts.google.com/o/oauth2/revoke?token='' @ tok"

definition name :: string where
  "name = ''google''"

text \<open>
  \<^verbatim>\<open>New\<close>: the loop fills the map \<^verbatim>\<open>uw\<close> from the list of users, then the
  configuration is refused when it has neither a domain nor a user. The argument is
  a pointer that the caller has allocated. The function calls nothing of the backend.
\<close>

definition New :: "Auth \<Rightarrow> error + Config" where
  "New c =
     (let uw = foldl (\<lambda>m u. fmupd u True m) fmempty (UsersWhitelist c) in
      if index_str (ProviderOpts c) ''domain'' = [] \<and> len_map uw = 0
      then Inl ''either Google Apps domain or users whitelist must be specified''
      else Inr \<lparr>config =
                  \<lparr>ClientID = OauthClientID c,
                   ClientSecret = OauthClientSecret c,
                   Endpoint = google_Endpoint,
                   RedirectURL = OauthCallbackURL c,
                   Scopes = [UserinfoEmailScope, UserinfoProfileScope]\<rparr>,
                domain = index_str (ProviderOpts c) ''domain'',
                whitelist = uw\<rparr>)"

definition newClient :: "Config \<Rightarrow> Token option \<Rightarrow> Client" where
  "newClient c token = \<lparr>client_config = config c, client_token = token\<rparr>"

definition Name :: "Config \<Rightarrow> string" where
  "Name c = name"

text \<open>\<^verbatim>\<open>Email\<close>: the address the backend reports, the empty string on any error.\<close>

definition Email :: "'w backend \<Rightarrow> Config \<Rightarrow> Token option \<Rightarrow> 'w \<Rightarrow> string \<times> 'w" where
  "Email b c token w =
     (case NewService b (newClient c token) w of
        (Inl err, w1) \<Rightarrow> ([], w1)
      | (Inr svc, w1) \<Rightarrow>
          (case Userinfo_Get_Do b svc w1 of
             (Inl err, w2) \<Rightarrow> ([], w2)
           | (Inr ui, w2) \<Rightarrow> (ui_Email ui, w2)))"

text \<open>
  \<^verbatim>\<open>Valid\<close>, line by line. The conjunction of Go evaluates \<^verbatim>\<open>c.Email\<close> only when
  the whitelist has an entry. Reading \<^verbatim>\<open>token.AccessToken\<close> dereferences the pointer.
\<close>

definition Valid ::
  "'w backend \<Rightarrow> Config \<Rightarrow> Token option \<Rightarrow> 'w \<Rightarrow> Metrics \<Rightarrow> bool outcome \<times> 'w \<times> Metrics" where
  "Valid b c token w m =
     (case (if 0 < len_map (whitelist c)
            then (case Email b c token w of (e, w') \<Rightarrow> (\<not> index_bool (whitelist c) e, w'))
            else (False, w)) of
        (refused, w0) \<Rightarrow>
          if refused then (Return False, w0, m)
          else if \<not> Token_Valid b w0 token then (Return False, w0, m)
          else
            (case NewService b (newClient c token) w0 of
               (Inl err, w1) \<Rightarrow> (Return False, w1, m)
             | (Inr svc, w1) \<Rightarrow>
                 (case token of
                    None \<Rightarrow> (Panic, w1, m)
                  | Some t \<Rightarrow>
                      (case Tokeninfo_Do b svc (AccessToken t) w1 of
                         (Inl err, w2) \<Rightarrow> (Return False, w2, m)
                       | (Inr ti, w2) \<Rightarrow>
                           if Audience ti \<noteq> ClientID (config c) then (Return False, w2, m)
                           else
                             (case Userinfo_Get_Do b svc w2 of
                                (Inl err, w3) \<Rightarrow> (Return False, w3, m)
                              | (Inr ui, w3) \<Rightarrow>
                                  if domain c \<noteq> [] \<and> Hd ui \<noteq> domain c
                                  then (Return False, w3, m)
                                  else (Return True, w3, Inc_AuthValid ''google'' m))))))"

text \<open>
  \<^verbatim>\<open>Revoke\<close>: the request is a GET of the revocation URL; the response is closed
  and never inspected.
\<close>

definition Revoke ::
  "'w backend \<Rightarrow> Config \<Rightarrow> Token option \<Rightarrow> 'w \<Rightarrow> error option outcome \<times> 'w" where
  "Revoke b c token w =
     (let client = newClient c token in
      case token of
        None \<Rightarrow> (Panic, w)
      | Some t \<Rightarrow>
          (case NewRequestWithContext b ''GET'' (revokeURL (AccessToken t)) of
             Inl err \<Rightarrow> (Return (Some err), w)
           | Inr req \<Rightarrow>
               (case Client_Do b client req w of
                  (Inl err, w1) \<Rightarrow> (Return (Some err), w1)
                | (Inr resp, w1) \<Rightarrow> (Return None, w1))))"

text \<open>
  What the backend reports is in the response: the revocation endpoint answers with
  status 200 when it has revoked the token and with an error status otherwise.
\<close>

definition revocation_succeeded :: "Response \<Rightarrow> bool" where
  "revocation_succeeded resp = (StatusCode resp = 200)"

text \<open>\<^verbatim>\<open>Exchange\<close>: the counter moves when the library reports no error.\<close>

definition Exchange ::
  "'w backend \<Rightarrow> Config \<Rightarrow> string \<Rightarrow> 'w \<Rightarrow> Metrics \<Rightarrow> (error + Token) \<times> 'w \<times> Metrics" where
  "Exchange b c code w m =
     (case oauth2_Exchange b (config c) code w of
        (Inr t, w1) \<Rightarrow> (Inr t, w1, Inc_AuthExchange ''google'' m)
      | (Inl err, w1) \<Rightarrow> (Inl err, w1, m))"

subsection \<open>The authorization URL\<close>

text \<open>
  \<^verbatim>\<open>(*oauth2.Config).AuthCodeURL\<close> of the library fills a \<^verbatim>\<open>url.Values\<close> (a map
  from a key to its values): the response type and the client id always, the
  redirect URL, the scopes joined by a space and the state when they are not empty;
  then every option sets its key, and the values are encoded behind the
  authorization URL of the endpoint. The model stops before the encoding: an
  authorization URL is the endpoint's URL and the values of its query.
\<close>

type_synonym Values = "string \<rightharpoonup> string list"

record AuthURL_with_query =
  url_base :: string
  url_query :: Values

datatype AuthCodeOption = SetAuthURLParam string string

fun setValue :: "AuthCodeOption \<Rightarrow> Values \<Rightarrow> Values" where
  "setValue (SetAuthURLParam k v) vs = vs(k \<mapsto> [v])"

fun Join :: "string list \<Rightarrow> string \<Rightarrow> string" where
  "Join [] sep = []"
| "Join [x] sep = x"
| "Join (x # y # ys) sep = x @ sep @ Join (y # ys) sep"

definition AuthCodeURL ::
  "oauth2_Config \<Rightarrow> string \<Rightarrow> AuthCodeOption list \<Rightarrow> AuthURL_with_query" where
  "AuthCodeURL conf state opts =
     (let v0 = [''response_type'' \<mapsto> [''code''], ''client_id'' \<mapsto> [ClientID conf]];
          v1 = (if RedirectURL conf \<noteq> [] then v0(''redirect_uri'' \<mapsto> [RedirectURL conf]) else v0);
          v2 = (if Scopes conf \<noteq> [] then v1(''scope'' \<mapsto> [Join (Scopes conf) '' '']) else v1);
          v3 = (if state \<noteq> [] then v2(''state'' \<mapsto> [state]) else v2);
          v4 = foldl (\<lambda>v opt. setValue opt v) v3 opts
      in \<lparr>url_base = AuthURL (Endpoint conf), url_query = v4\<rparr>)"

definition StartSession :: "Config \<Rightarrow> string \<Rightarrow> AuthURL_with_query" where
  "StartSession c state = AuthCodeURL (config c) state [SetAuthURLParam ''hd'' (domain c)]"

subsection \<open>The user name\<close>

text \<open>
  \<^verbatim>\<open>strings.Split(s, sep)\<close> at a separator of one byte, as the provider calls it:
  the string is cut at every occurrence of the separator, from the left.
  \<open>IndexByte\<close> is the position of the first occurrence.
\<close>

fun IndexByte :: "string \<Rightarrow> char \<Rightarrow> nat option" where
  "IndexByte [] sep = None"
| "IndexByte (x # xs) sep = (if x = sep then Some 0 else map_option Suc (IndexByte xs sep))"

function Split :: "string \<Rightarrow> char \<Rightarrow> string list" where
  "Split s sep =
     (case IndexByte s sep of
        None \<Rightarrow> [s]
      | Some i \<Rightarrow> take i s # Split (drop (i + 1) s) sep)"
  by pat_completeness auto
termination
proof (relation "measure (\<lambda>(s, sep). length s)")
  show "wf (measure (\<lambda>(s, sep). length s))"
    by simp
next
  fix s :: string and sep :: char and i :: nat
  assume found: "IndexByte s sep = Some i"
  have "\<And>j. IndexByte s sep = Some j \<Longrightarrow> j < length s"
    by (induction s) (auto split: if_splits)
  with found have "i < length s"
    by blast
  then show "((drop (i + 1) s, sep), (s, sep)) \<in> measure (\<lambda>(s, sep). length s)"
    by simp
qed

declare Split.simps [simp del]

text \<open>
  \<^verbatim>\<open>Username\<close>: element zero of the split address. Indexing a slice that has no
  element zero panics.
\<close>

definition Username ::
  "'w backend \<Rightarrow> Config \<Rightarrow> Token option \<Rightarrow> 'w \<Rightarrow> string outcome \<times> 'w" where
  "Username b c token w =
     (case Email b c token w of
        (e, w1) \<Rightarrow>
          (case Split e (CHR ''@'') of
             [] \<Rightarrow> (Panic, w1)
           | x # xs \<Rightarrow> (Return x, w1)))"

section \<open>A scripted backend and example data\<close>

text \<open>
  A backend for concrete runs: every operation gives the answer its script holds and
  appends itself to the state, which is the list of the calls made so far.
\<close>

datatype call =
  Call_NewService
| Call_Tokeninfo string
| Call_Userinfo
| Call_Exchange string
| Call_Do string

record script =
  clock_expired :: bool
  service_answer :: "error option"
  tokeninfo_answer :: "error + Tokeninfo"
  userinfo_answer :: "error + Userinfo"
  exchange_answer :: "error + Token"
  request_answer :: "error option"
  do_answer :: "error + Response"

definition scripted :: "script \<Rightarrow> call list backend" where
  "scripted s =
     \<lparr>expired = (\<lambda>w t. clock_expired s),
      NewService = (\<lambda>cl w.
        (case service_answer s of None \<Rightarrow> Inr \<lparr>svc_client = cl\<rparr> | Some e \<Rightarrow> Inl e,
         w @ [Call_NewService])),
      Tokeninfo_Do = (\<lambda>svc tok w. (tokeninfo_answer s, w @ [Call_Tokeninfo tok])),
      Userinfo_Get_Do = (\<lambda>svc w. (userinfo_answer s, w @ [Call_Userinfo])),
      oauth2_Exchange = (\<lambda>conf code w. (exchange_answer s, w @ [Call_Exchange code])),
      NewRequestWithContext = (\<lambda>meth u.
        case request_answer s of None \<Rightarrow> Inr \<lparr>Method = meth, URL = u\<rparr> | Some e \<Rightarrow> Inl e),
      Client_Do = (\<lambda>cl req w. (do_answer s, w @ [Call_Do (URL req)]))\<rparr>"

definition alice_token :: Token where
  "alice_token =
     \<lparr>AccessToken = ''ya29.alice'', TokenType = ''Bearer'', RefreshToken = [], Expiry = 0\<rparr>"

definition ok_script :: script where
  "ok_script =
     \<lparr>clock_expired = False,
      service_answer = None,
      tokeninfo_answer = Inr \<lparr>Audience = ''client-id''\<rparr>,
      userinfo_answer = Inr \<lparr>ui_Email = ''alice@example.com'', Hd = ''example.com''\<rparr>,
      exchange_answer = Inr alice_token,
      request_answer = None,
      do_answer = Inr \<lparr>StatusCode = 200\<rparr>\<rparr>"

text \<open>The scripts of the runs that follow: \<open>ok_script\<close> with one answer changed.\<close>

definition stranger_script :: script where
  "stranger_script =
     ok_script\<lparr>userinfo_answer :=
       Inr \<lparr>ui_Email = ''mallory@example.com'', Hd = ''example.com''\<rparr>\<rparr>"

definition no_address_script :: script where
  "no_address_script = ok_script\<lparr>userinfo_answer := Inr \<lparr>ui_Email = [], Hd = []\<rparr>\<rparr>"

definition bare_name_script :: script where
  "bare_name_script = ok_script\<lparr>userinfo_answer := Inr \<lparr>ui_Email = ''alice'', Hd = []\<rparr>\<rparr>"

definition other_domain_script :: script where
  "other_domain_script =
     ok_script\<lparr>userinfo_answer := Inr \<lparr>ui_Email = ''alice@other.com'', Hd = ''other.com''\<rparr>\<rparr>"

definition userinfo_error_script :: script where
  "userinfo_error_script = ok_script\<lparr>userinfo_answer := Inl ''context canceled''\<rparr>"

definition expired_script :: script where
  "expired_script = ok_script\<lparr>clock_expired := True\<rparr>"

definition no_service_script :: script where
  "no_service_script = ok_script\<lparr>service_answer := Some ''no client''\<rparr>"

definition tokeninfo_error_script :: script where
  "tokeninfo_error_script = ok_script\<lparr>tokeninfo_answer := Inl ''context canceled''\<rparr>"

definition other_audience_script :: script where
  "other_audience_script = ok_script\<lparr>tokeninfo_answer := Inr \<lparr>Audience = ''another-app''\<rparr>\<rparr>"

definition bad_code_script :: script where
  "bad_code_script = ok_script\<lparr>exchange_answer := Inl ''invalid_grant''\<rparr>"

definition bad_request_script :: script where
  "bad_request_script = ok_script\<lparr>request_answer := Some ''invalid URL escape''\<rparr>"

definition timeout_script :: script where
  "timeout_script = ok_script\<lparr>do_answer := Inl ''dial tcp: i/o timeout''\<rparr>"

definition unavailable_script :: script where
  "unavailable_script = ok_script\<lparr>do_answer := Inr \<lparr>StatusCode = 503\<rparr>\<rparr>"

definition rejecting_script :: script where
  "rejecting_script = ok_script\<lparr>do_answer := Inr \<lparr>StatusCode = 400\<rparr>\<rparr>"

definition example_oauth :: oauth2_Config where
  "example_oauth =
     \<lparr>ClientID = ''client-id'',
      ClientSecret = ''client-secret'',
      Endpoint = google_Endpoint,
      RedirectURL = ''https://sshca.example.com/auth/callback'',
      Scopes = [UserinfoEmailScope, UserinfoProfileScope]\<rparr>"

definition domain_only :: Config where
  "domain_only = \<lparr>config = example_oauth, domain = ''example.com'', whitelist = fmempty\<rparr>"

definition whitelist_only :: Config where
  "whitelist_only =
     \<lparr>config = example_oauth, domain = [],
      whitelist = fmupd ''alice@example.com'' True fmempty\<rparr>"

definition whitelist_and_domain :: Config where
  "whitelist_and_domain =
     \<lparr>config = example_oauth, domain = ''corp.example.org'',
      whitelist = fmupd ''alice@example.com'' True fmempty\<rparr>"

definition whitelist_only_auth :: Auth where
  "whitelist_only_auth =
     \<lparr>OauthClientID = ''client-id'',
      OauthClientSecret = ''client-secret'',
      OauthCallbackURL = ''https://sshca.example.com/auth/callback'',
      ProviderOpts = fmempty,
      UsersWhitelist = [''alice@example.com'']\<rparr>"

definition unrestricted_auth :: Auth where
  "unrestricted_auth =
     \<lparr>OauthClientID = ''client-id'',
      OauthClientSecret = ''client-secret'',
      OauthCallbackURL = ''https://sshca.example.com/auth/callback'',
      ProviderOpts = fmupd ''domain'' [] fmempty,
      UsersWhitelist = []\<rparr>"

definition no_counts :: Metrics where
  "no_counts = \<lparr>AuthValid = (\<lambda>l. 0), AuthExchange = (\<lambda>l. 0)\<rparr>"

section \<open>Construction\<close>

lemma whitelist_of_users:
  "fmdom (foldl (\<lambda>m u. fmupd u True m) m0 us) = fmdom m0 |\<union>| fset_of_list us"
  by (induction us arbitrary: m0) auto

lemma len_map_0: "len_map m = 0 \<longleftrightarrow> fmdom m = {||}"
  by (simp add: len_map_def)

lemma len_map_pos: "0 < len_map m \<longleftrightarrow> fmdom m \<noteq> {||}"
  unfolding len_map_0 [symmetric] by auto

text \<open>
  C4: \<^verbatim>\<open>New\<close> returns an error exactly when the domain option is empty (or absent)
  and the list of users is empty, and a provider exactly when one of the two is not
  empty. \<^verbatim>\<open>New\<close> has no backend and no state of the world among its arguments: it
  makes no call outside the provider.
\<close>

theorem New_error_iff:
  "(\<exists>e. New a = Inl e) = (index_str (ProviderOpts a) ''domain'' = [] \<and> UsersWhitelist a = [])
   \<and> (\<exists>c. New a = Inr c) = (index_str (ProviderOpts a) ''domain'' \<noteq> [] \<or> UsersWhitelist a \<noteq> [])"
  by (cases "UsersWhitelist a") (auto simp: New_def Let_def len_map_0 whitelist_of_users)

theorem New_error_iff_witness:
  "isl (New unrestricted_auth) \<and> \<not> isl (New whitelist_only_auth)"
proof -
  have "index_str (ProviderOpts unrestricted_auth) ''domain'' = []
      \<and> UsersWhitelist unrestricted_auth = []"
    by (simp add: unrestricted_auth_def index_str_def)
  moreover have "UsersWhitelist whitelist_only_auth \<noteq> []"
    by (simp add: whitelist_only_auth_def)
  ultimately show ?thesis
    using New_error_iff [of unrestricted_auth] New_error_iff [of whitelist_only_auth]
    by auto
qed

section \<open>The user name\<close>

lemma IndexByte_None: "IndexByte s sep = None \<longleftrightarrow> sep \<notin> set s"
  by (induction s) auto

lemma IndexByte_take: "IndexByte s sep = Some i \<Longrightarrow> take i s = takeWhile (\<lambda>x. x \<noteq> sep) s"
  by (induction s arbitrary: i) (auto split: if_splits)

lemma Split_head: "\<exists>xs. Split s sep = takeWhile (\<lambda>x. x \<noteq> sep) s # xs"
proof (cases "IndexByte s sep")
  case None
  then have whole: "takeWhile (\<lambda>x. x \<noteq> sep) s = s"
    by (auto simp: IndexByte_None)
  from None have "Split s sep = [s]"
    by (subst Split.simps) simp
  then show ?thesis
    unfolding whole by simp
next
  case (Some i)
  then show ?thesis
    by (subst Split.simps) (simp add: IndexByte_take)
qed

lemma Username_takeWhile:
  "Username b c token w =
     (Return (takeWhile (\<lambda>x. x \<noteq> CHR ''@'') (fst (Email b c token w))), snd (Email b c token w))"
proof -
  obtain xs where "Split (fst (Email b c token w)) (CHR ''@'') =
      takeWhile (\<lambda>x. x \<noteq> CHR ''@'') (fst (Email b c token w)) # xs"
    using Split_head by blast
  then show ?thesis
    by (cases "Email b c token w") (simp add: Username_def)
qed

text \<open>
  C7: when \<^verbatim>\<open>Email\<close> answers \<open>e\<close>, and \<open>e\<close> is \<open>u\<close>, the separator \<open>@\<close> and a rest, with
  no separator in \<open>u\<close>, \<^verbatim>\<open>Username\<close> returns \<open>u\<close>; when \<open>e\<close> is empty, it returns the
  empty string. The state of the world is the one \<^verbatim>\<open>Email\<close> leaves.
\<close>

theorem Username_before_separator:
  assumes "Email b c token w = (e, w1)"
  shows "(e = u @ CHR ''@'' # rest \<and> CHR ''@'' \<notin> set u \<longrightarrow> Username b c token w = (Return u, w1))
       \<and> (e = [] \<longrightarrow> Username b c token w = (Return [], w1))"
  using assms by (auto simp: Username_takeWhile takeWhile_tail)

theorem Username_before_separator_witness:
  "Username (scripted ok_script) domain_only (Some alice_token) [] =
     (Return ''alice'', [Call_NewService, Call_Userinfo])
   \<and> Username (scripted no_address_script) domain_only (Some alice_token) [] =
     (Return [], [Call_NewService, Call_Userinfo])"
proof -
  have e1: "Email (scripted ok_script) domain_only (Some alice_token) [] =
      (''alice@example.com'', [Call_NewService, Call_Userinfo])"
    by (simp add: Email_def scripted_def ok_script_def)
  have e2: "Email (scripted no_address_script) domain_only (Some alice_token) [] =
      ([], [Call_NewService, Call_Userinfo])"
    by (simp add: Email_def scripted_def ok_script_def no_address_script_def)
  show ?thesis
    using Username_before_separator [OF e1, of "''alice''" "''example.com''"]
      Username_before_separator [OF e2]
    by simp
qed

text \<open>
  C10: splitting at \<open>@\<close> never gives the empty list, so \<^verbatim>\<open>Username\<close> never panics;
  and when \<^verbatim>\<open>Email\<close> answers a string \<open>e\<close> without the separator, \<^verbatim>\<open>Username\<close>
  returns all of \<open>e\<close>.
\<close>

theorem Username_never_panics:
  "Split e (CHR ''@'') \<noteq> []
   \<and> fst (Username b c token w) \<noteq> Panic
   \<and> (Email b c token w = (e, w1) \<longrightarrow> CHR ''@'' \<notin> set e \<longrightarrow> Username b c token w = (Return e, w1))"
  using Split_head [of e "CHR ''@''"] by (auto simp: Username_takeWhile)

theorem Username_never_panics_witness:
  "Username (scripted bare_name_script) domain_only (Some alice_token) [] =
     (Return ''alice'', [Call_NewService, Call_Userinfo])"
proof -
  have e: "Email (scripted bare_name_script) domain_only (Some alice_token) [] =
      (''alice'', [Call_NewService, Call_Userinfo])"
    by (simp add: Email_def scripted_def ok_script_def bare_name_script_def)
  have "CHR ''@'' \<notin> set ''alice''"
    by simp
  with e Username_never_panics [of "''alice''" "scripted bare_name_script"
      domain_only "Some alice_token" "[]" "[Call_NewService, Call_Userinfo]"]
  show ?thesis
    by blast
qed

section \<open>The checks of \<^verbatim>\<open>Valid\<close>\<close>

lemma Token_Valid_None: "\<not> Token_Valid b w None"
  by (simp add: Token_Valid_def)

text \<open>
  C2: the checks of \<^verbatim>\<open>Valid\<close> in their order; each case names the first
      check that
  fails, after all the earlier ones have passed, and the state of the world it leaves,
  which is the state after the last call made: no later call is made. Here \<open>listed\<close>
  says that the whitelist is empty or holds the address that \<^verbatim>\<open>Email\<close>
      answers, and
  \<open>w0\<close> is the state after that check. (1) the whitelist; (2) the validity of the
  token itself; (3) the confirmation by the backend, which is the construction of the
  service and the \<^verbatim>\<open>Tokeninfo\<close> call; (4) the audience against the client
      id; (5)
  the \<^verbatim>\<open>Userinfo\<close> call and, when a domain is configured, the hosted
      domain against
  it. When nothing fails \<^verbatim>\<open>Valid\<close> returns true.
\<close>

theorem Valid_check_order:
  assumes "w0 = (if 0 < len_map (whitelist c) then snd (Email b c token w) else w)"
    and "listed = (0 < len_map (whitelist c) \<longrightarrow> index_bool (whitelist c) (fst
        (Email b c token w)))"
  shows "(\<not> listed \<longrightarrow> Valid b c token w m = (Return False, w0, m))
    \<and> (listed \<and> \<not> Token_Valid b w0 token \<longrightarrow> Valid b c token w m =
        (Return False, w0, m))
    \<and> (listed \<and> Token_Valid b w0 token
        \<and> NewService b (newClient c token) w0 = (Inl err1, w1)
        \<longrightarrow> Valid b c token w m = (Return False, w1, m))
    \<and> (listed \<and> Token_Valid b w0 token
        \<and> NewService b (newClient c token) w0 = (Inr svc, w1)
        \<and> token = Some t
        \<and> Tokeninfo_Do b svc (AccessToken t) w1 = (Inl err2, w2)
        \<longrightarrow> Valid b c token w m = (Return False, w2, m))
    \<and> (listed \<and> Token_Valid b w0 token
        \<and> NewService b (newClient c token) w0 = (Inr svc, w1)
        \<and> token = Some t
        \<and> Tokeninfo_Do b svc (AccessToken t) w1 = (Inr ti, w2)
        \<and> Audience ti \<noteq> ClientID (config c)
        \<longrightarrow> Valid b c token w m = (Return False, w2, m))
    \<and> (listed \<and> Token_Valid b w0 token
        \<and> NewService b (newClient c token) w0 = (Inr svc, w1)
        \<and> token = Some t
        \<and> Tokeninfo_Do b svc (AccessToken t) w1 = (Inr ti, w2)
        \<and> Audience ti = ClientID (config c)
        \<and> Userinfo_Get_Do b svc w2 = (Inl err3, w3)
        \<longrightarrow> Valid b c token w m = (Return False, w3, m))
    \<and> (listed \<and> Token_Valid b w0 token
        \<and> NewService b (newClient c token) w0 = (Inr svc, w1)
        \<and> token = Some t
        \<and> Tokeninfo_Do b svc (AccessToken t) w1 = (Inr ti, w2)
        \<and> Audience ti = ClientID (config c)
        \<and> Userinfo_Get_Do b svc w2 = (Inr ui, w3)
        \<and> domain c \<noteq> [] \<and> Hd ui \<noteq> domain c
        \<longrightarrow> Valid b c token w m = (Return False, w3, m))
    \<and> (listed \<and> Token_Valid b w0 token
        \<and> NewService b (newClient c token) w0 = (Inr svc, w1)
        \<and> token = Some t
        \<and> Tokeninfo_Do b svc (AccessToken t) w1 = (Inr ti, w2)
        \<and> Audience ti = ClientID (config c)
        \<and> Userinfo_Get_Do b svc w2 = (Inr ui, w3)
        \<and> (domain c = [] \<or> Hd ui = domain c)
        \<longrightarrow> Valid b c token w m = (Return True, w3, Inc_AuthValid ''google'' m))"
  unfolding assms by (auto simp: Valid_def split: prod.splits)

theorem Valid_check_order_witness:
  "Valid (scripted stranger_script) whitelist_only (Some alice_token) [] no_counts
       = (Return False, [Call_NewService, Call_Userinfo], no_counts)
   \<and> Valid (scripted expired_script) whitelist_only (Some alice_token) [] no_counts
       = (Return False, [Call_NewService, Call_Userinfo], no_counts)
   \<and> Valid (scripted no_service_script) domain_only (Some alice_token) [] no_counts
       = (Return False, [Call_NewService], no_counts)
   \<and> Valid (scripted tokeninfo_error_script) domain_only (Some alice_token) [] no_counts
       = (Return False, [Call_NewService, Call_Tokeninfo ''ya29.alice''], no_counts)
   \<and> Valid (scripted other_audience_script) whitelist_only (Some alice_token) [] no_counts
       = (Return False, [Call_NewService, Call_Userinfo, Call_NewService, Call_Tokeninfo
           ''ya29.alice''], no_counts)
   \<and> Valid (scripted userinfo_error_script) domain_only (Some alice_token) [] no_counts
       = (Return False, [Call_NewService, Call_Tokeninfo ''ya29.alice'', Call_Userinfo],
           no_counts)
   \<and> Valid (scripted other_domain_script) domain_only (Some alice_token) [] no_counts
       = (Return False, [Call_NewService, Call_Tokeninfo ''ya29.alice'', Call_Userinfo],
           no_counts)
   \<and> Valid (scripted ok_script) domain_only (Some alice_token) [] no_counts
       = (Return True, [Call_NewService, Call_Tokeninfo ''ya29.alice'', Call_Userinfo],
           Inc_AuthValid ''google'' no_counts)"
proof -
  note defs = Email_def Token_Valid_def scripted_def ok_script_def alice_token_def
    whitelist_only_def domain_only_def whitelist_and_domain_def example_oauth_def
    index_bool_def len_map_pos newClient_def stranger_script_def expired_script_def
    no_service_script_def tokeninfo_error_script_def other_audience_script_def
    userinfo_error_script_def other_domain_script_def
  have a1: "[Call_NewService, Call_Userinfo] = (if 0 < len_map (whitelist whitelist_only)
      then snd (Email (scripted stranger_script) whitelist_only (Some alice_token) []) else [])"
    by (simp add: defs)
  have l1: "False = (0 < len_map (whitelist whitelist_only) \<longrightarrow>
      index_bool (whitelist whitelist_only) (fst (Email (scripted stranger_script)
          whitelist_only (Some alice_token) [])))"
    by (simp add: defs)
  have h1: "\<not> False"
    by (simp add: defs)
  have r1: "Valid (scripted stranger_script) whitelist_only (Some alice_token) [] no_counts
       = (Return False, [Call_NewService, Call_Userinfo], no_counts)"
    by (rule Valid_check_order [OF a1 l1, THEN conjunct1, THEN mp, OF h1])
  have a2: "[Call_NewService, Call_Userinfo] = (if 0 < len_map (whitelist whitelist_only)
      then snd (Email (scripted expired_script) whitelist_only (Some alice_token) []) else [])"
    by (simp add: defs)
  have l2: "True = (0 < len_map (whitelist whitelist_only) \<longrightarrow>
      index_bool (whitelist whitelist_only) (fst (Email (scripted expired_script) whitelist_only
          (Some alice_token) [])))"
    by (simp add: defs)
  have h2: "True
      \<and> \<not> Token_Valid (scripted expired_script) [Call_NewService, Call_Userinfo] (Some
          alice_token)"
    by (simp add: defs)
  have r2: "Valid (scripted expired_script) whitelist_only (Some alice_token) [] no_counts
       = (Return False, [Call_NewService, Call_Userinfo], no_counts)"
    by (rule Valid_check_order [OF a2 l2, THEN conjunct2, THEN conjunct1, THEN mp, OF h2])
  have a3: "[] = (if 0 < len_map (whitelist domain_only)
      then snd (Email (scripted no_service_script) domain_only (Some alice_token) []) else [])"
    by (simp add: defs)
  have l3: "True = (0 < len_map (whitelist domain_only) \<longrightarrow>
      index_bool (whitelist domain_only) (fst (Email (scripted no_service_script) domain_only
          (Some alice_token) [])))"
    by (simp add: defs)
  have h3: "True
      \<and> Token_Valid (scripted no_service_script) [] (Some alice_token)
      \<and> NewService (scripted no_service_script) (newClient domain_only (Some alice_token))
          [] = (Inl ''no client'', [Call_NewService])"
    by (simp add: defs)
  have r3: "Valid (scripted no_service_script) domain_only (Some alice_token) [] no_counts
       = (Return False, [Call_NewService], no_counts)"
    by (rule Valid_check_order [OF a3 l3, THEN conjunct2, THEN conjunct2, THEN conjunct1, THEN
        mp, OF h3])
  have a4: "[] = (if 0 < len_map (whitelist domain_only)
      then snd (Email (scripted tokeninfo_error_script) domain_only (Some alice_token) []) else
          [])"
    by (simp add: defs)
  have l4: "True = (0 < len_map (whitelist domain_only) \<longrightarrow>
      index_bool (whitelist domain_only) (fst (Email (scripted tokeninfo_error_script)
          domain_only (Some alice_token) [])))"
    by (simp add: defs)
  have h4: "True
      \<and> Token_Valid (scripted tokeninfo_error_script) [] (Some alice_token)
      \<and> NewService (scripted tokeninfo_error_script) (newClient domain_only (Some
          alice_token)) [] = (Inr \<lparr>svc_client = newClient domain_only (Some
          alice_token)\<rparr>, [Call_NewService])
      \<and> Some alice_token = Some alice_token
      \<and> Tokeninfo_Do (scripted tokeninfo_error_script) \<lparr>svc_client = newClient
          domain_only (Some alice_token)\<rparr> (AccessToken alice_token) [Call_NewService] =
          (Inl ''context canceled'', [Call_NewService, Call_Tokeninfo ''ya29.alice''])"
    by (simp add: defs)
  have r4: "Valid (scripted tokeninfo_error_script) domain_only (Some alice_token) [] no_counts
       = (Return False, [Call_NewService, Call_Tokeninfo ''ya29.alice''], no_counts)"
    by (rule Valid_check_order [OF a4 l4, THEN conjunct2, THEN conjunct2, THEN conjunct2, THEN
        conjunct1, THEN mp, OF h4])
  have a5: "[Call_NewService, Call_Userinfo] = (if 0 < len_map (whitelist whitelist_only)
      then snd (Email (scripted other_audience_script) whitelist_only (Some alice_token) [])
          else [])"
    by (simp add: defs)
  have l5: "True = (0 < len_map (whitelist whitelist_only) \<longrightarrow>
      index_bool (whitelist whitelist_only) (fst (Email (scripted other_audience_script)
          whitelist_only (Some alice_token) [])))"
    by (simp add: defs)
  have h5: "True
      \<and> Token_Valid (scripted other_audience_script) [Call_NewService, Call_Userinfo] (Some
          alice_token)
      \<and> NewService (scripted other_audience_script) (newClient whitelist_only (Some
          alice_token)) [Call_NewService, Call_Userinfo] = (Inr \<lparr>svc_client = newClient
          whitelist_only (Some alice_token)\<rparr>, [Call_NewService, Call_Userinfo,
          Call_NewService])
      \<and> Some alice_token = Some alice_token
      \<and> Tokeninfo_Do (scripted other_audience_script) \<lparr>svc_client = newClient
          whitelist_only (Some alice_token)\<rparr> (AccessToken alice_token) [Call_NewService,
          Call_Userinfo, Call_NewService] = (Inr \<lparr>Audience = ''another-app''\<rparr>,
          [Call_NewService, Call_Userinfo, Call_NewService, Call_Tokeninfo ''ya29.alice''])
      \<and> Audience \<lparr>Audience = ''another-app''\<rparr> \<noteq> ClientID (config
          whitelist_only)"
    by (simp add: defs)
  have r5: "Valid (scripted other_audience_script) whitelist_only (Some alice_token) []
      no_counts
       = (Return False, [Call_NewService, Call_Userinfo, Call_NewService, Call_Tokeninfo
           ''ya29.alice''], no_counts)"
    by (rule Valid_check_order [OF a5 l5, THEN conjunct2, THEN conjunct2, THEN conjunct2, THEN
        conjunct2, THEN conjunct1, THEN mp, OF h5])
  have a6: "[] = (if 0 < len_map (whitelist domain_only)
      then snd (Email (scripted userinfo_error_script) domain_only (Some alice_token) []) else
          [])"
    by (simp add: defs)
  have l6: "True = (0 < len_map (whitelist domain_only) \<longrightarrow>
      index_bool (whitelist domain_only) (fst (Email (scripted userinfo_error_script)
          domain_only (Some alice_token) [])))"
    by (simp add: defs)
  have h6: "True
      \<and> Token_Valid (scripted userinfo_error_script) [] (Some alice_token)
      \<and> NewService (scripted userinfo_error_script) (newClient domain_only (Some
          alice_token)) [] = (Inr \<lparr>svc_client = newClient domain_only (Some
          alice_token)\<rparr>, [Call_NewService])
      \<and> Some alice_token = Some alice_token
      \<and> Tokeninfo_Do (scripted userinfo_error_script) \<lparr>svc_client = newClient
          domain_only (Some alice_token)\<rparr> (AccessToken alice_token) [Call_NewService] =
          (Inr \<lparr>Audience = ''client-id''\<rparr>, [Call_NewService, Call_Tokeninfo
          ''ya29.alice''])
      \<and> Audience \<lparr>Audience = ''client-id''\<rparr> = ClientID (config domain_only)
      \<and> Userinfo_Get_Do (scripted userinfo_error_script) \<lparr>svc_client = newClient
          domain_only (Some alice_token)\<rparr> [Call_NewService, Call_Tokeninfo
          ''ya29.alice''] = (Inl ''context canceled'', [Call_NewService, Call_Tokeninfo
          ''ya29.alice'', Call_Userinfo])"
    by (simp add: defs)
  have r6: "Valid (scripted userinfo_error_script) domain_only (Some alice_token) [] no_counts
       = (Return False, [Call_NewService, Call_Tokeninfo ''ya29.alice'', Call_Userinfo],
           no_counts)"
    by (rule Valid_check_order [OF a6 l6, THEN conjunct2, THEN conjunct2, THEN conjunct2, THEN
        conjunct2, THEN conjunct2, THEN conjunct1, THEN mp, OF h6])
  have a7: "[] = (if 0 < len_map (whitelist domain_only)
      then snd (Email (scripted other_domain_script) domain_only (Some alice_token) []) else
          [])"
    by (simp add: defs)
  have l7: "True = (0 < len_map (whitelist domain_only) \<longrightarrow>
      index_bool (whitelist domain_only) (fst (Email (scripted other_domain_script) domain_only
          (Some alice_token) [])))"
    by (simp add: defs)
  have h7: "True
      \<and> Token_Valid (scripted other_domain_script) [] (Some alice_token)
      \<and> NewService (scripted other_domain_script) (newClient domain_only (Some
          alice_token)) [] = (Inr \<lparr>svc_client = newClient domain_only (Some
          alice_token)\<rparr>, [Call_NewService])
      \<and> Some alice_token = Some alice_token
      \<and> Tokeninfo_Do (scripted other_domain_script) \<lparr>svc_client = newClient
          domain_only (Some alice_token)\<rparr> (AccessToken alice_token) [Call_NewService] =
          (Inr \<lparr>Audience = ''client-id''\<rparr>, [Call_NewService, Call_Tokeninfo
          ''ya29.alice''])
      \<and> Audience \<lparr>Audience = ''client-id''\<rparr> = ClientID (config domain_only)
      \<and> Userinfo_Get_Do (scripted other_domain_script) \<lparr>svc_client = newClient
          domain_only (Some alice_token)\<rparr> [Call_NewService, Call_Tokeninfo
          ''ya29.alice''] = (Inr \<lparr>ui_Email = ''alice@other.com'', Hd =
          ''other.com''\<rparr>, [Call_NewService, Call_Tokeninfo ''ya29.alice'',
          Call_Userinfo])
      \<and> domain domain_only \<noteq> [] \<and> Hd \<lparr>ui_Email = ''alice@other.com'', Hd
          = ''other.com''\<rparr> \<noteq> domain domain_only"
    by (simp add: defs)
  have r7: "Valid (scripted other_domain_script) domain_only (Some alice_token) [] no_counts
       = (Return False, [Call_NewService, Call_Tokeninfo ''ya29.alice'', Call_Userinfo],
           no_counts)"
    by (rule Valid_check_order [OF a7 l7, THEN conjunct2, THEN conjunct2, THEN conjunct2, THEN
        conjunct2, THEN conjunct2, THEN conjunct2, THEN conjunct1, THEN mp, OF h7])
  have a8: "[] = (if 0 < len_map (whitelist domain_only)
      then snd (Email (scripted ok_script) domain_only (Some alice_token) []) else [])"
    by (simp add: defs)
  have l8: "True = (0 < len_map (whitelist domain_only) \<longrightarrow>
      index_bool (whitelist domain_only) (fst (Email (scripted ok_script) domain_only (Some
          alice_token) [])))"
    by (simp add: defs)
  have h8: "True
      \<and> Token_Valid (scripted ok_script) [] (Some alice_token)
      \<and> NewService (scripted ok_script) (newClient domain_only (Some alice_token)) [] =
          (Inr \<lparr>svc_client = newClient domain_only (Some alice_token)\<rparr>,
          [Call_NewService])
      \<and> Some alice_token = Some alice_token
      \<and> Tokeninfo_Do (scripted ok_script) \<lparr>svc_client = newClient domain_only (Some
          alice_token)\<rparr> (AccessToken alice_token) [Call_NewService] = (Inr
          \<lparr>Audience = ''client-id''\<rparr>, [Call_NewService, Call_Tokeninfo
          ''ya29.alice''])
      \<and> Audience \<lparr>Audience = ''client-id''\<rparr> = ClientID (config domain_only)
      \<and> Userinfo_Get_Do (scripted ok_script) \<lparr>svc_client = newClient domain_only
          (Some alice_token)\<rparr> [Call_NewService, Call_Tokeninfo ''ya29.alice''] = (Inr
          \<lparr>ui_Email = ''alice@example.com'', Hd = ''example.com''\<rparr>,
          [Call_NewService, Call_Tokeninfo ''ya29.alice'', Call_Userinfo])
      \<and> (domain domain_only = [] \<or> Hd \<lparr>ui_Email = ''alice@example.com'', Hd =
          ''example.com''\<rparr> = domain domain_only)"
    by (simp add: defs)
  have r8: "Valid (scripted ok_script) domain_only (Some alice_token) [] no_counts
       = (Return True, [Call_NewService, Call_Tokeninfo ''ya29.alice'', Call_Userinfo],
           Inc_AuthValid ''google'' no_counts)"
    by (rule Valid_check_order [OF a8 l8, THEN conjunct2, THEN conjunct2, THEN conjunct2, THEN
        conjunct2, THEN conjunct2, THEN conjunct2, THEN conjunct2, THEN mp, OF h8])
  from r1 r2 r3 r4 r5 r6 r7 r8 show ?thesis
    by blast
qed

text \<open>
  C1, as the code has it: with a whitelist that is not empty, \<^verbatim>\<open>Valid\<close>
      returns false
  for an address that is not in the whitelist; for an address in the whitelist whose
  token passes the expiry, confirmation and audience checks, and whose
      \<^verbatim>\<open>Userinfo\<close>
  call answers, the domain is still compared when one is configured: the result is
  true exactly when no domain is configured or the hosted domain equals it.
\<close>

theorem Valid_whitelist_and_domain:
  assumes "0 < len_map (whitelist c)" and "Email b c token w = (e, w0)"
  shows "(\<not> index_bool (whitelist c) e \<longrightarrow> fst (Valid b c token w m) = Return
      False)
    \<and> (index_bool (whitelist c) e \<and> Token_Valid b w0 token
        \<and> NewService b (newClient c token) w0 = (Inr svc, w1)
        \<and> token = Some t
        \<and> Tokeninfo_Do b svc (AccessToken t) w1 = (Inr ti, w2)
        \<and> Audience ti = ClientID (config c)
        \<and> Userinfo_Get_Do b svc w2 = (Inr ui, w3)
        \<longrightarrow> fst (Valid b c token w m) = Return (domain c = [] \<or> Hd ui = domain
            c))"
  using assms by (auto simp: Valid_def)

theorem Valid_whitelist_and_domain_witness:
  "fst (Valid (scripted stranger_script) whitelist_only (Some alice_token) [] no_counts) =
      Return False
   \<and> fst (Valid (scripted ok_script) whitelist_only (Some alice_token) [] no_counts) =
       Return True"
proof -
  note defs = Email_def Token_Valid_def scripted_def ok_script_def alice_token_def
    whitelist_only_def domain_only_def whitelist_and_domain_def example_oauth_def
    index_bool_def len_map_pos newClient_def stranger_script_def expired_script_def
    no_service_script_def tokeninfo_error_script_def other_audience_script_def
    userinfo_error_script_def other_domain_script_def
  have n: "0 < len_map (whitelist whitelist_only)"
    by (simp add: whitelist_only_def len_map_pos)
  have e1: "Email (scripted stranger_script) whitelist_only (Some alice_token) [] =
      (''mallory@example.com'', [Call_NewService, Call_Userinfo])"
    by (simp add: defs)
  have e2: "Email (scripted ok_script) whitelist_only (Some alice_token) [] =
      (''alice@example.com'', [Call_NewService, Call_Userinfo])"
    by (simp add: defs)
  have h1: "\<not> index_bool (whitelist whitelist_only) ''mallory@example.com''"
    by (simp add: defs)
  have h2: "index_bool (whitelist whitelist_only) ''alice@example.com''
      \<and> Token_Valid (scripted ok_script) [Call_NewService, Call_Userinfo] (Some
          alice_token)
      \<and> NewService (scripted ok_script) (newClient whitelist_only (Some alice_token))
          [Call_NewService, Call_Userinfo] = (Inr \<lparr>svc_client = newClient whitelist_only
          (Some alice_token)\<rparr>, [Call_NewService, Call_Userinfo, Call_NewService])
      \<and> Some alice_token = Some alice_token
      \<and> Tokeninfo_Do (scripted ok_script) \<lparr>svc_client = newClient whitelist_only
          (Some alice_token)\<rparr> (AccessToken alice_token) [Call_NewService, Call_Userinfo,
          Call_NewService] = (Inr \<lparr>Audience = ''client-id''\<rparr>, [Call_NewService,
          Call_Userinfo, Call_NewService, Call_Tokeninfo ''ya29.alice''])
      \<and> Audience \<lparr>Audience = ''client-id''\<rparr> = ClientID (config
          whitelist_only)
      \<and> Userinfo_Get_Do (scripted ok_script) \<lparr>svc_client = newClient whitelist_only
          (Some alice_token)\<rparr> [Call_NewService, Call_Userinfo, Call_NewService,
          Call_Tokeninfo ''ya29.alice''] = (Inr \<lparr>ui_Email = ''alice@example.com'', Hd =
          ''example.com''\<rparr>, [Call_NewService, Call_Userinfo, Call_NewService,
          Call_Tokeninfo ''ya29.alice'', Call_Userinfo])"
    by (simp add: defs)
  have r1: "fst (Valid (scripted stranger_script) whitelist_only (Some alice_token) []
      no_counts) = Return False"
    by (rule Valid_whitelist_and_domain [OF n e1, THEN conjunct1, THEN mp, OF h1])
  have "fst (Valid (scripted ok_script) whitelist_only (Some alice_token) [] no_counts)
      = Return (domain whitelist_only = [] \<or> Hd \<lparr>ui_Email = ''alice@example.com'', Hd
          = ''example.com''\<rparr> = domain whitelist_only)"
    by (rule Valid_whitelist_and_domain [OF n e2, THEN conjunct2, THEN mp, OF h2])
  then have r2: "fst (Valid (scripted ok_script) whitelist_only (Some alice_token) [] no_counts)
      = Return True"
    by (simp add: whitelist_only_def)
  from r1 r2 show ?thesis
    by blast
qed

text \<open>
  The claim C1 as it is written fails: the provider has the whitelisted address
  \<open>alice@example.com\<close> and the domain \<open>corp.example.org\<close>; the token is
      valid, the
  backend confirms it with the provider's client id as audience, and reports the
  hosted domain \<open>example.com\<close>. \<^verbatim>\<open>Valid\<close> returns false.
\<close>

theorem whitelisted_with_other_domain_refused:
  "0 < len_map (whitelist whitelist_and_domain)
   \<and> index_bool (whitelist whitelist_and_domain)
       (fst (Email (scripted ok_script) whitelist_and_domain (Some alice_token) []))
   \<and> Token_Valid (scripted ok_script) [] (Some alice_token)
   \<and> tokeninfo_answer ok_script = Inr \<lparr>Audience = ClientID (config
       whitelist_and_domain)\<rparr>
   \<and> userinfo_answer ok_script = Inr \<lparr>ui_Email = ''alice@example.com'', Hd =
       ''example.com''\<rparr>
   \<and> domain whitelist_and_domain = ''corp.example.org''
   \<and> fst (Valid (scripted ok_script) whitelist_and_domain (Some alice_token) [] no_counts)
       = Return False"
  by (simp add: Valid_def Email_def Token_Valid_def scripted_def ok_script_def
      whitelist_and_domain_def example_oauth_def alice_token_def index_bool_def len_map_pos
      newClient_def)

text \<open>
  C3: when every audience that the backend reports for the token differs from the
  client id of the provider, \<^verbatim>\<open>Valid\<close> returns false, whatever the
      whitelist, the
  expiry of the token and the other answers of the backend are.
\<close>

theorem Valid_audience_mismatch:
  assumes "\<And>t svc w1 ti w2.
      token = Some t \<Longrightarrow> Tokeninfo_Do b svc (AccessToken t) w1 = (Inr ti, w2)
          \<Longrightarrow>
      Audience ti \<noteq> ClientID (config c)"
  shows "fst (Valid b c token w m) = Return False"
  using assms by (auto simp: Valid_def Token_Valid_None split: prod.splits sum.splits
      option.splits)

theorem Valid_audience_mismatch_witness:
  "Token_Valid (scripted other_audience_script) []
     (Some alice_token)
   \<and> index_bool (whitelist whitelist_only) ''alice@example.com''
   \<and> fst (Valid (scripted other_audience_script)
        whitelist_only (Some alice_token) [] no_counts) = Return False"
proof -
  have "fst (Valid (scripted other_audience_script)
        whitelist_only (Some alice_token) [] no_counts) = Return False"
    by (rule Valid_audience_mismatch)
      (auto simp: scripted_def ok_script_def other_audience_script_def whitelist_only_def
        example_oauth_def)
  then show ?thesis
    by (simp add: Token_Valid_def scripted_def ok_script_def other_audience_script_def
        alice_token_def whitelist_only_def index_bool_def)
qed



section \<open>The counters\<close>

text \<open>
  C8: \<^verbatim>\<open>Exchange\<close> returns what the exchange of the library returns, and
      adds one to
  the exchange counter of \<open>google\<close> when that is not an error, leaving the counters
      as
  they are otherwise; \<^verbatim>\<open>Valid\<close> adds one to the validation counter of
      \<open>google\<close> when it
  returns true, and leaves the counters as they are on every other path.
\<close>

theorem counters_move_on_success_only:
  "fst (Exchange b c code w m) = fst (oauth2_Exchange b (config c) code w)
   \<and> snd (snd (Exchange b c code w m)) =
       (if isl (fst (Exchange b c code w m)) then m
        else m\<lparr>AuthExchange := (AuthExchange m)(''google'' := AuthExchange m ''google'' +
            1)\<rparr>)
   \<and> snd (snd (Valid b c token w m)) =
       (if fst (Valid b c token w m) = Return True
        then m\<lparr>AuthValid := (AuthValid m)(''google'' := AuthValid m ''google'' +
            1)\<rparr>
        else m)"
  by (auto simp: Exchange_def Valid_def Inc_AuthExchange_def Inc_AuthValid_def
      split: prod.splits sum.splits option.splits)

theorem counters_move_on_success_only_witness:
  "AuthExchange (snd (snd (Exchange (scripted ok_script) domain_only ''4/code'' [] no_counts)))
       ''google'' = 1
   \<and> snd (snd (Exchange (scripted bad_code_script)
       domain_only ''4/code'' [] no_counts)) = no_counts
   \<and> AuthValid (snd (snd (Valid (scripted ok_script) domain_only (Some alice_token) []
       no_counts))) ''google'' = 1
   \<and> snd (snd (Valid (scripted expired_script) domain_only
       (Some alice_token) [] no_counts)) = no_counts"
proof -
  note defs = Token_Valid_def scripted_def ok_script_def expired_script_def alice_token_def
    domain_only_def example_oauth_def len_map_pos newClient_def
  have ok: "fst (oauth2_Exchange (scripted ok_script) (config domain_only) ''4/code'' [])
      = Inr alice_token"
    by (simp add: scripted_def ok_script_def)
  have bad: "fst (oauth2_Exchange (scripted bad_code_script)
      (config domain_only) ''4/code'' []) = Inl ''invalid_grant''"
    by (simp add: scripted_def ok_script_def bad_code_script_def)
  have accepted: "fst (Valid (scripted ok_script) domain_only (Some alice_token) [] no_counts)
      = Return True"
    by (simp add: Valid_def defs)
  have refused: "fst (Valid (scripted expired_script) domain_only
      (Some alice_token) [] no_counts) = Return False"
    by (simp add: Valid_def defs)
  have "snd (snd (Exchange (scripted ok_script) domain_only ''4/code'' [] no_counts))
      = no_counts\<lparr>AuthExchange :=
          (AuthExchange no_counts)(''google'' := AuthExchange no_counts ''google'' + 1)\<rparr>"
    using counters_move_on_success_only [where b = "scripted ok_script" and c = domain_only
        and code = "''4/code''" and w = "[]" and m = no_counts and token = "Some alice_token"]
    by (simp add: ok)
  then have r1: "AuthExchange (snd (snd (Exchange (scripted ok_script) domain_only ''4/code'' []
      no_counts))) ''google'' = 1"
    by (simp add: no_counts_def)
  have r2: "snd (snd (Exchange (scripted bad_code_script)
      domain_only ''4/code'' [] no_counts)) = no_counts"
    using counters_move_on_success_only [where
        b = "scripted bad_code_script"
        and c = domain_only and code = "''4/code''" and w = "[]" and m = no_counts
        and token = "Some alice_token"]
    by (simp add: bad)
  have "snd (snd (Valid (scripted ok_script) domain_only (Some alice_token) [] no_counts))
      = no_counts\<lparr>AuthValid :=
          (AuthValid no_counts)(''google'' := AuthValid no_counts ''google'' + 1)\<rparr>"
    using counters_move_on_success_only [where b = "scripted ok_script" and c = domain_only
        and code = "''4/code''" and w = "[]" and m = no_counts and token = "Some alice_token"]
    by (simp add: accepted)
  then have r3: "AuthValid (snd (snd (Valid (scripted ok_script) domain_only (Some alice_token)
      []
      no_counts))) ''google'' = 1"
    by (simp add: no_counts_def)
  have r4: "snd (snd (Valid (scripted expired_script) domain_only
      (Some alice_token) [] no_counts)) = no_counts"
    using counters_move_on_success_only [where
        b = "scripted expired_script"
        and c = domain_only and code = "''4/code''" and w = "[]" and m = no_counts
        and token = "Some alice_token"]
    by (simp add: refused)
  from r1 r2 r3 r4 show ?thesis
    by blast
qed

section \<open>Revocation\<close>

text \<open>
  C6, as the code has it: for a token that is not nil, \<^verbatim>\<open>Revoke\<close> returns
      the error
  of the construction of the request when that fails, the error of the round trip of
  the HTTP client when that fails, and nil as soon as the backend answers with a
  response, whatever the response is.
\<close>

theorem Revoke_error_iff_transport:
  assumes "token = Some t"
  shows "(NewRequestWithContext b ''GET'' (revokeURL (AccessToken t)) = Inl e
        \<longrightarrow> Revoke b c token w = (Return (Some e), w))
    \<and> (NewRequestWithContext b ''GET'' (revokeURL (AccessToken t)) = Inr req
        \<and> Client_Do b (newClient c token) req w = (Inl e, w1)
        \<longrightarrow> Revoke b c token w = (Return (Some e), w1))
    \<and> (NewRequestWithContext b ''GET'' (revokeURL (AccessToken t)) = Inr req
        \<and> Client_Do b (newClient c token) req w = (Inr resp, w1)
        \<longrightarrow> Revoke b c token w = (Return None, w1))"
  using assms by (auto simp: Revoke_def Let_def)

theorem Revoke_error_iff_transport_witness:
  "Revoke (scripted bad_request_script) domain_only (Some alice_token) [] = (Return (Some
      ''invalid URL escape''), [])
   \<and> Revoke (scripted timeout_script) domain_only (Some alice_token) [] = (Return (Some
       ''dial tcp: i/o timeout''), [Call_Do
       ''https://accounts.google.com/o/oauth2/revoke?token=ya29.alice''])
   \<and> Revoke (scripted unavailable_script) domain_only (Some alice_token) [] = (Return None,
       [Call_Do ''https://accounts.google.com/o/oauth2/revoke?token=ya29.alice''])"
proof -
  note defs = scripted_def ok_script_def alice_token_def revokeURL_def
    bad_request_script_def timeout_script_def unavailable_script_def
  have tk: "Some alice_token = Some alice_token"
    by simp
  have h1: "NewRequestWithContext (scripted bad_request_script) ''GET'' (revokeURL (AccessToken
      alice_token)) = Inl ''invalid URL escape''"
    by (simp add: defs)
  have r1: "Revoke (scripted bad_request_script) domain_only (Some alice_token) [] = (Return
      (Some ''invalid URL escape''), [])"
    by (rule Revoke_error_iff_transport [OF tk, THEN conjunct1, THEN mp, OF h1])
  have h2: "NewRequestWithContext (scripted timeout_script) ''GET'' (revokeURL (AccessToken
      alice_token)) = Inr \<lparr>Method = ''GET'', URL =
      ''https://accounts.google.com/o/oauth2/revoke?token=ya29.alice''\<rparr>
      \<and> Client_Do (scripted timeout_script) (newClient domain_only (Some alice_token))
          \<lparr>Method = ''GET'', URL =
          ''https://accounts.google.com/o/oauth2/revoke?token=ya29.alice''\<rparr> [] = (Inl
          ''dial tcp: i/o timeout'', [Call_Do
          ''https://accounts.google.com/o/oauth2/revoke?token=ya29.alice''])"
    by (simp add: defs)
  have r2: "Revoke (scripted timeout_script) domain_only (Some alice_token) [] = (Return (Some
      ''dial tcp: i/o timeout''), [Call_Do
      ''https://accounts.google.com/o/oauth2/revoke?token=ya29.alice''])"
    by (rule Revoke_error_iff_transport [OF tk, THEN conjunct2, THEN conjunct1, THEN mp, OF h2])
  have h3: "NewRequestWithContext (scripted unavailable_script) ''GET'' (revokeURL (AccessToken
      alice_token)) = Inr \<lparr>Method = ''GET'', URL =
      ''https://accounts.google.com/o/oauth2/revoke?token=ya29.alice''\<rparr>
      \<and> Client_Do (scripted unavailable_script) (newClient domain_only (Some alice_token))
          \<lparr>Method = ''GET'', URL =
          ''https://accounts.google.com/o/oauth2/revoke?token=ya29.alice''\<rparr> [] = (Inr
          \<lparr>StatusCode = 503\<rparr>, [Call_Do
          ''https://accounts.google.com/o/oauth2/revoke?token=ya29.alice''])"
    by (simp add: defs)
  have r3: "Revoke (scripted unavailable_script) domain_only (Some alice_token) [] = (Return
      None, [Call_Do ''https://accounts.google.com/o/oauth2/revoke?token=ya29.alice''])"
    by (rule Revoke_error_iff_transport [OF tk, THEN conjunct2, THEN conjunct2, THEN mp, OF h3])
  from r1 r2 r3 show ?thesis
    by blast
qed

text \<open>
  The claim C6 as it is written fails: the backend answers the revocation request
  with status 400, which reports that it has not revoked the token, and
      \<^verbatim>\<open>Revoke\<close>
  returns nil.
\<close>

theorem Revoke_ignores_status:
  "do_answer rejecting_script = Inr \<lparr>StatusCode = 400\<rparr>
   \<and> \<not> revocation_succeeded \<lparr>StatusCode = 400\<rparr>
   \<and> fst (Revoke (scripted rejecting_script) domain_only (Some alice_token) [])
       = Return None"
  by (simp add: Revoke_def Let_def scripted_def ok_script_def rejecting_script_def
      revocation_succeeded_def)

section \<open>The authorization URL\<close>

text \<open>
  C9: for every state string, the query of the URL that \<^verbatim>\<open>StartSession\<close>
      returns has
  the parameter \<open>hd\<close> with the configured domain as its one value; for a provider
      that
  \<^verbatim>\<open>New\<close> has built from a configuration without a domain, the parameter
      is there
  with the empty string as its value.
\<close>

theorem StartSession_hd:
  "url_query (StartSession c state) ''hd'' = Some [domain c]
   \<and> (New a = Inr c \<and> index_str (ProviderOpts a) ''domain'' = []
       \<longrightarrow> url_query (StartSession c state) ''hd'' = Some [[]])"
  by (auto simp: StartSession_def AuthCodeURL_def Let_def New_def split: if_splits)

theorem StartSession_hd_witness:
  "New whitelist_only_auth = Inr whitelist_only
   \<and> url_query (StartSession whitelist_only ''state-1'') ''hd'' = Some [[]]"
proof -
  have built: "New whitelist_only_auth = Inr whitelist_only"
    by (simp add: New_def whitelist_only_auth_def whitelist_only_def example_oauth_def
        index_str_def len_map_def)
  moreover have "index_str (ProviderOpts whitelist_only_auth) ''domain'' = []"
    by (simp add: whitelist_only_auth_def index_str_def)
  ultimately show ?thesis
    using StartSession_hd [of whitelist_only "''state-1''" whitelist_only_auth]
    by blast
qed

end
